theory Spec2Isabelle
  imports Complex_Main "HOL-Library.Sublist"
begin

section \<open>The command buffer of a Graphics game object\<close>

text \<open>
  The embedding follows \<^verbatim>\<open>src/gameobjects/graphics/Graphics.js\<close>. A JavaScript number
  is modelled as a real (the arithmetic the source does is one division by two and a few
  additions and subtractions, kept here in the order the source writes them); an argument
  the caller may leave out is an option, \<open>None\<close> standing for \<^verbatim>\<open>undefined\<close>.
\<close>

subsection \<open>Instructions\<close>

text \<open>
  Modelled from the spec: the opcode table \<^verbatim>\<open>Commands\<close> (\<^verbatim>\<open>./Commands\<close>) is not among the
  sources; the opcodes are the enumeration of the spec's section 6.
\<close>

datatype command =
    ARC | BEGIN_PATH | CLOSE_PATH | FILL_RECT | LINE_TO | MOVE_TO | LINE_STYLE
  | FILL_STYLE | FILL_PATH | STROKE_PATH | FILL_TRIANGLE | STROKE_TRIANGLE
  | LINE_FX_TO | MOVE_FX_TO | SAVE | RESTORE | TRANSLATE | SCALE | ROTATE

text \<open>
  One element of the flat array \<^verbatim>\<open>commandBuffer\<close>: an opcode, or one operand as the
  caller's JavaScript value (a number, a boolean, or \<^verbatim>\<open>undefined\<close>).
\<close>

datatype cell = Cmd command | JNum real | JBool bool | JUndefined

fun is_command :: "cell \<Rightarrow> bool" where
  "is_command (Cmd c) = True"
| "is_command (JNum r) = False"
| "is_command (JBool b) = False"
| "is_command JUndefined = False"

text \<open>The number of instructions held by a buffer: one per opcode.\<close>

definition instruction_count :: "cell list \<Rightarrow> nat" where
  "instruction_count buf = length (filter is_command buf)"

text \<open>An optional boolean argument as the value the array receives.\<close>

fun js_bool :: "bool option \<Rightarrow> cell" where
  "js_bool None = JUndefined"
| "js_bool (Some b) = JBool b"

text \<open>
  Modelled from the spec: \<^verbatim>\<open>MATH_CONST.PI2\<close> (\<^verbatim>\<open>../../math/const\<close>) is not among the
  sources; the spec gives the end angle of a full circle as two pi.
\<close>

definition PI2 :: real where
  "PI2 = 2 * pi"

subsection \<open>The object\<close>

text \<open>
  The fields the constructor sets. \<open>pos_x\<close> and \<open>pos_y\<close> are \<^verbatim>\<open>this.x\<close> and \<^verbatim>\<open>this.y\<close> of
  the Transform component, \<open>u_lineWidth\<close> is the private \<^verbatim>\<open>_lineWidth\<close>.
\<close>

record graphics =
  pos_x :: real
  pos_y :: real
  commandBuffer :: "cell list"
  defaultFillColor :: real
  defaultFillAlpha :: real
  defaultStrokeWidth :: real
  defaultStrokeColor :: real
  defaultStrokeAlpha :: real
  u_lineWidth :: real

text \<open>\<^verbatim>\<open>this.commandBuffer.push(...)\<close>: the cells go to the end of the array.\<close>

definition push :: "cell list \<Rightarrow> graphics \<Rightarrow> graphics" where
  "push cs g = g\<lparr>commandBuffer := commandBuffer g @ cs\<rparr>"

subsection \<open>Styles\<close>

definition lineStyle :: "real \<Rightarrow> real \<Rightarrow> real option \<Rightarrow> graphics \<Rightarrow> graphics" where
  "lineStyle lineWidth color alpha g =
     (let alpha' = (case alpha of None \<Rightarrow> 1 | Some a \<Rightarrow> a);
          g1 = push [Cmd LINE_STYLE, JNum lineWidth, JNum color, JNum alpha'] g
      in g1\<lparr>u_lineWidth := lineWidth\<rparr>)"

definition fillStyle :: "real \<Rightarrow> real option \<Rightarrow> graphics \<Rightarrow> graphics" where
  "fillStyle color alpha g =
     (let alpha' = (case alpha of None \<Rightarrow> 1 | Some a \<Rightarrow> a)
      in push [Cmd FILL_STYLE, JNum color, JNum alpha'] g)"

subsection \<open>Construction\<close>

record lineStyleOptions =
  ls_width :: "real option"
  ls_color :: "real option"
  ls_alpha :: "real option"

record fillStyleOptions =
  fs_color :: "real option"
  fs_alpha :: "real option"

record options =
  opt_x :: "real option"
  opt_y :: "real option"
  opt_lineStyle :: "lineStyleOptions option"
  opt_fillStyle :: "fillStyleOptions option"

text \<open>
  Modelled from the spec: \<^verbatim>\<open>GetValue\<close> (\<^verbatim>\<open>../../utils/object/GetValue\<close>) is not among the
  sources; the spec describes it as the accessor that reads a nested optional key with a
  default. The source object may be absent, and so may the key along its path.
\<close>

definition GetValue :: "'s option \<Rightarrow> ('s \<Rightarrow> 'v option) \<Rightarrow> 'v \<Rightarrow> 'v" where
  "GetValue source key defaultValue =
     (case source of
        None \<Rightarrow> defaultValue
      | Some s \<Rightarrow> (case key s of None \<Rightarrow> defaultValue | Some v \<Rightarrow> v))"

text \<open>The nested keys \<^verbatim>\<open>'lineStyle.width'\<close>, ... of the options object.\<close>

definition key_lineStyle :: "(lineStyleOptions \<Rightarrow> 'v option) \<Rightarrow> options \<Rightarrow> 'v option" where
  "key_lineStyle f opts = (case opt_lineStyle opts of None \<Rightarrow> None | Some ls \<Rightarrow> f ls)"

definition key_fillStyle :: "(fillStyleOptions \<Rightarrow> 'v option) \<Rightarrow> options \<Rightarrow> 'v option" where
  "key_fillStyle f opts = (case opt_fillStyle opts of None \<Rightarrow> None | Some fs \<Rightarrow> f fs)"

text \<open>
  \<^verbatim>\<open>GetValue(options, 'lineStyle', null)\<close> is the style object, which is truthy, or
  \<^verbatim>\<open>null\<close>; the width, colour and alpha default to 1, \<^verbatim>\<open>0xffffff\<close> and 1.
\<close>

definition setDefaultStyles :: "options option \<Rightarrow> graphics \<Rightarrow> graphics" where
  "setDefaultStyles opts g =
     (let g1 =
        (case GetValue opts (\<lambda>c. map_option Some (opt_lineStyle c)) None of
           None \<Rightarrow> g
         | Some ls \<Rightarrow>
             (let ga = g\<lparr>defaultStrokeWidth := GetValue opts (key_lineStyle ls_width) 1\<rparr>;
                  gb = ga\<lparr>defaultStrokeColor := GetValue opts (key_lineStyle ls_color) 16777215\<rparr>;
                  gc = gb\<lparr>defaultStrokeAlpha := GetValue opts (key_lineStyle ls_alpha) 1\<rparr>
              in lineStyle (defaultStrokeWidth gc) (defaultStrokeColor gc)
                   (Some (defaultStrokeAlpha gc)) gc))
      in
        (case GetValue opts (\<lambda>c. map_option Some (opt_fillStyle c)) None of
           None \<Rightarrow> g1
         | Some fs \<Rightarrow>
             (let ga = g1\<lparr>defaultFillColor := GetValue opts (key_fillStyle fs_color) 16777215\<rparr>;
                  gb = ga\<lparr>defaultFillAlpha := GetValue opts (key_fillStyle fs_alpha) 1\<rparr>
              in fillStyle (defaultFillColor gb) (Some (defaultFillAlpha gb)) gb)))"

text \<open>The constructor: the position, an empty buffer, the unset defaults, then the styles.\<close>

definition Graphics :: "options option \<Rightarrow> graphics" where
  "Graphics opts =
     setDefaultStyles opts
       \<lparr>pos_x = GetValue opts opt_x 0,
        pos_y = GetValue opts opt_y 0,
        commandBuffer = [],
        defaultFillColor = - 1,
        defaultFillAlpha = 1,
        defaultStrokeWidth = 1,
        defaultStrokeColor = - 1,
        defaultStrokeAlpha = 1,
        u_lineWidth = 1\<rparr>"

subsection \<open>Paths\<close>

definition beginPath :: "graphics \<Rightarrow> graphics" where
  "beginPath g = push [Cmd BEGIN_PATH] g"

definition closePath :: "graphics \<Rightarrow> graphics" where
  "closePath g = push [Cmd CLOSE_PATH] g"

definition fillPath :: "graphics \<Rightarrow> graphics" where
  "fillPath g = push [Cmd FILL_PATH] g"

definition strokePath :: "graphics \<Rightarrow> graphics" where
  "strokePath g = push [Cmd STROKE_PATH] g"

definition lineTo :: "real \<Rightarrow> real \<Rightarrow> graphics \<Rightarrow> graphics" where
  "lineTo x y g = push [Cmd LINE_TO, JNum x, JNum y] g"

definition moveTo :: "real \<Rightarrow> real \<Rightarrow> graphics \<Rightarrow> graphics" where
  "moveTo x y g = push [Cmd MOVE_TO, JNum x, JNum y] g"

definition lineFxTo :: "real \<Rightarrow> real \<Rightarrow> real \<Rightarrow> real \<Rightarrow> graphics \<Rightarrow> graphics" where
  "lineFxTo x y width rgb g = push [Cmd LINE_FX_TO, JNum x, JNum y, JNum width, JNum rgb, JNum 1] g"

definition moveFxTo :: "real \<Rightarrow> real \<Rightarrow> real \<Rightarrow> real \<Rightarrow> graphics \<Rightarrow> graphics" where
  "moveFxTo x y width rgb g = push [Cmd MOVE_FX_TO, JNum x, JNum y, JNum width, JNum rgb, JNum 1] g"

text \<open>
  \<^verbatim>\<open>arc\<close> pushes its sixth argument as it receives it: a caller that passes five
  arguments stores \<^verbatim>\<open>undefined\<close>.
\<close>

definition arc :: "real \<Rightarrow> real \<Rightarrow> real \<Rightarrow> real \<Rightarrow> real \<Rightarrow> bool option \<Rightarrow> graphics \<Rightarrow> graphics" where
  "arc x y radius startAngle endAngle anticlockwise g =
     push [Cmd ARC, JNum x, JNum y, JNum radius, JNum startAngle, JNum endAngle,
           js_bool anticlockwise] g"

definition slice :: "real \<Rightarrow> real \<Rightarrow> real \<Rightarrow> real \<Rightarrow> real \<Rightarrow> bool option \<Rightarrow> graphics \<Rightarrow> graphics" where
  "slice x y radius startAngle endAngle anticlockwise g =
     (let anticlockwise' = (case anticlockwise of None \<Rightarrow> False | Some b \<Rightarrow> b);
          g1 = push [Cmd BEGIN_PATH] g;
          g2 = push [Cmd MOVE_TO, JNum x, JNum y] g1;
          g3 = push [Cmd ARC, JNum x, JNum y, JNum radius, JNum startAngle, JNum endAngle,
                     JBool anticlockwise'] g2
      in push [Cmd CLOSE_PATH] g3)"

subsection \<open>Shapes\<close>

record circle =
  circle_x :: real
  circle_y :: real
  circle_radius :: real

record rectangle =
  rect_x :: real
  rect_y :: real
  rect_width :: real
  rect_height :: real

record point =
  pt_x :: real
  pt_y :: real

record triangle =
  tri_x1 :: real
  tri_y1 :: real
  tri_x2 :: real
  tri_y2 :: real
  tri_x3 :: real
  tri_y3 :: real

record line =
  line_x1 :: real
  line_y1 :: real
  line_x2 :: real
  line_y2 :: real

definition fillCircle :: "real \<Rightarrow> real \<Rightarrow> real \<Rightarrow> graphics \<Rightarrow> graphics" where
  "fillCircle x y radius g =
     (let g1 = beginPath g;
          g2 = arc x y radius 0 PI2 None g1
      in fillPath g2)"

definition strokeCircle :: "real \<Rightarrow> real \<Rightarrow> real \<Rightarrow> graphics \<Rightarrow> graphics" where
  "strokeCircle x y radius g =
     (let g1 = beginPath g;
          g2 = arc x y radius 0 PI2 None g1
      in strokePath g2)"

definition fillCircleShape :: "circle \<Rightarrow> graphics \<Rightarrow> graphics" where
  "fillCircleShape c g = fillCircle (circle_x c) (circle_y c) (circle_radius c) g"

definition strokeCircleShape :: "circle \<Rightarrow> graphics \<Rightarrow> graphics" where
  "strokeCircleShape c g = strokeCircle (circle_x c) (circle_y c) (circle_radius c) g"

definition fillRect :: "real \<Rightarrow> real \<Rightarrow> real \<Rightarrow> real \<Rightarrow> graphics \<Rightarrow> graphics" where
  "fillRect x y width height g = push [Cmd FILL_RECT, JNum x, JNum y, JNum width, JNum height] g"

definition strokeRect :: "real \<Rightarrow> real \<Rightarrow> real \<Rightarrow> real \<Rightarrow> graphics \<Rightarrow> graphics" where
  "strokeRect x y width height g =
     (let lineWidthHalf = u_lineWidth g / 2;
          minx = x - lineWidthHalf;
          maxx = x + lineWidthHalf;
          g1 = strokePath (lineTo x (y + height) (moveTo x y (beginPath g)));
          g2 = strokePath (lineTo (x + width) (y + height) (moveTo (x + width) y (beginPath g1)));
          g3 = strokePath (lineTo (maxx + width) y (moveTo minx y (beginPath g2)))
      in strokePath (lineTo (maxx + width) (y + height) (moveTo minx (y + height) (beginPath g3))))"

definition fillRectShape :: "rectangle \<Rightarrow> graphics \<Rightarrow> graphics" where
  "fillRectShape r g = fillRect (rect_x r) (rect_y r) (rect_width r) (rect_height r) g"

definition strokeRectShape :: "rectangle \<Rightarrow> graphics \<Rightarrow> graphics" where
  "strokeRectShape r g = strokeRect (rect_x r) (rect_y r) (rect_width r) (rect_height r) g"

text \<open>
  \<^verbatim>\<open>!size || size < 1\<close>: an omitted size and the number zero are falsy; any other number
  is compared with one.
\<close>

definition fillPoint :: "real \<Rightarrow> real \<Rightarrow> real option \<Rightarrow> graphics \<Rightarrow> graphics" where
  "fillPoint x y sz g =
     (case sz of
        None \<Rightarrow> push [Cmd FILL_RECT, JNum x, JNum y, JNum 1, JNum 1] g
      | Some s \<Rightarrow>
          if s = 0 \<or> s < 1
          then push [Cmd FILL_RECT, JNum x, JNum y, JNum 1, JNum 1] g
          else push [Cmd FILL_RECT, JNum (x - s / 2), JNum (y - s / 2), JNum s, JNum s] g)"

definition fillPointShape :: "point \<Rightarrow> real option \<Rightarrow> graphics \<Rightarrow> graphics" where
  "fillPointShape p sz g = fillPoint (pt_x p) (pt_y p) sz g"

definition fillTriangle :: "real \<Rightarrow> real \<Rightarrow> real \<Rightarrow> real \<Rightarrow> real \<Rightarrow> real \<Rightarrow> graphics \<Rightarrow> graphics" where
  "fillTriangle x0 y0 x1 y1 x2 y2 g =
     push [Cmd FILL_TRIANGLE, JNum x0, JNum y0, JNum x1, JNum y1, JNum x2, JNum y2] g"

definition strokeTriangle :: "real \<Rightarrow> real \<Rightarrow> real \<Rightarrow> real \<Rightarrow> real \<Rightarrow> real \<Rightarrow> graphics \<Rightarrow> graphics" where
  "strokeTriangle x0 y0 x1 y1 x2 y2 g =
     push [Cmd STROKE_TRIANGLE, JNum x0, JNum y0, JNum x1, JNum y1, JNum x2, JNum y2] g"

definition fillTriangleShape :: "triangle \<Rightarrow> graphics \<Rightarrow> graphics" where
  "fillTriangleShape t g =
     fillTriangle (tri_x1 t) (tri_y1 t) (tri_x2 t) (tri_y2 t) (tri_x3 t) (tri_y3 t) g"

definition strokeTriangleShape :: "triangle \<Rightarrow> graphics \<Rightarrow> graphics" where
  "strokeTriangleShape t g =
     strokeTriangle (tri_x1 t) (tri_y1 t) (tri_x2 t) (tri_y2 t) (tri_x3 t) (tri_y3 t) g"

definition lineBetween :: "real \<Rightarrow> real \<Rightarrow> real \<Rightarrow> real \<Rightarrow> graphics \<Rightarrow> graphics" where
  "lineBetween x1 y1 x2 y2 g = strokePath (lineTo x2 y2 (moveTo x1 y1 (beginPath g)))"

definition strokeLineShape :: "line \<Rightarrow> graphics \<Rightarrow> graphics" where
  "strokeLineShape l g = lineBetween (line_x1 l) (line_y1 l) (line_x2 l) (line_y2 l) g"

subsection \<open>Point paths\<close>

text \<open>
  What the source can raise: the engine's TypeError, when a property is read from
  \<^verbatim>\<open>undefined\<close> or a missing method is called, and whatever a collaborator outside
  this file raises. An operation that raises returns the error with the state at the
  moment of the throw, since the object was mutated in place up to there.
\<close>

datatype error = TypeError | HostError string

text \<open>\<^verbatim>\<open>points[i]\<close>: outside the array the read yields \<^verbatim>\<open>undefined\<close>.\<close>

definition js_index :: "'a list \<Rightarrow> int \<Rightarrow> 'a option" where
  "js_index xs i = (if 0 \<le> i \<and> i < int (length xs) then Some (xs ! nat i) else None)"

text \<open>
  The loop \<^verbatim>\<open>for (var i = 1; i < endIndex; i++) this.lineTo(points[i].x, points[i].y)\<close>,
  from the index \<open>i\<close> on. Reading \<^verbatim>\<open>.x\<close> of \<^verbatim>\<open>undefined\<close> throws.
\<close>

function lineTo_loop :: "point list \<Rightarrow> int \<Rightarrow> int \<Rightarrow> graphics \<Rightarrow> (error \<times> graphics) + graphics" where
  "lineTo_loop points i endIndex g =
     (if i < endIndex
      then (case js_index points i of
              None \<Rightarrow> Inl (TypeError, g)
            | Some p \<Rightarrow> lineTo_loop points (i + 1) endIndex (lineTo (pt_x p) (pt_y p) g))
      else Inr g)"
  by pat_completeness auto
termination
  by (relation "measure (\<lambda>(points, i, endIndex, g). nat (endIndex - i))") auto

declare lineTo_loop.simps [simp del]

text \<open>
  The body shared by \<^verbatim>\<open>strokePoints\<close> and \<^verbatim>\<open>fillPoints\<close>, up to the last instruction:
  \<^verbatim>\<open>beginPath\<close> runs before \<^verbatim>\<open>points[0].x\<close> is evaluated.
\<close>

definition points_path :: "point list \<Rightarrow> bool option \<Rightarrow> int option \<Rightarrow> graphics \<Rightarrow> (error \<times> graphics) + graphics" where
  "points_path points autoClose endIndex g =
     (let autoClose' = (case autoClose of None \<Rightarrow> False | Some b \<Rightarrow> b);
          endIndex' = (case endIndex of None \<Rightarrow> int (length points) | Some e \<Rightarrow> e);
          g1 = beginPath g
      in case js_index points 0 of
           None \<Rightarrow> Inl (TypeError, g1)
         | Some p0 \<Rightarrow>
             (case lineTo_loop points 1 endIndex' (moveTo (pt_x p0) (pt_y p0) g1) of
                Inl e \<Rightarrow> Inl e
              | Inr g3 \<Rightarrow> Inr (if autoClose' then lineTo (pt_x p0) (pt_y p0) g3 else g3)))"

definition strokePoints :: "point list \<Rightarrow> bool option \<Rightarrow> int option \<Rightarrow> graphics \<Rightarrow> (error \<times> graphics) + graphics" where
  "strokePoints points autoClose endIndex g =
     (case points_path points autoClose endIndex g of
        Inl e \<Rightarrow> Inl e
      | Inr g4 \<Rightarrow> Inr (strokePath g4))"

definition fillPoints :: "point list \<Rightarrow> bool option \<Rightarrow> int option \<Rightarrow> graphics \<Rightarrow> (error \<times> graphics) + graphics" where
  "fillPoints points autoClose endIndex g =
     (case points_path points autoClose endIndex g of
        Inl e \<Rightarrow> Inl e
      | Inr g4 \<Rightarrow> Inr (fillPath g4))"

subsection \<open>Ellipses\<close>

text \<open>
  Modelled from the spec: the class \<^verbatim>\<open>Ellipse\<close> (\<^verbatim>\<open>../../geom/ellipse/\<close>) is not among the
  sources. An ellipse is its origin and size; its method \<^verbatim>\<open>getPoints\<close>, which samples the
  boundary, is a parameter of the operations that call it.
\<close>

record ellipse =
  ell_x :: real
  ell_y :: real
  ell_width :: real
  ell_height :: real

definition strokeEllipseShape ::
  "(ellipse \<Rightarrow> int \<Rightarrow> point list) \<Rightarrow> ellipse \<Rightarrow> int option \<Rightarrow> graphics \<Rightarrow> (error \<times> graphics) + graphics" where
  "strokeEllipseShape getPoints el smoothness g =
     (let smoothness' = (case smoothness of None \<Rightarrow> 32 | Some n \<Rightarrow> n);
          points = getPoints el smoothness'
      in strokePoints points (Some True) None g)"

definition strokeEllipse ::
  "(ellipse \<Rightarrow> int \<Rightarrow> point list) \<Rightarrow> real \<Rightarrow> real \<Rightarrow> real \<Rightarrow> real \<Rightarrow> int option \<Rightarrow> graphics \<Rightarrow> (error \<times> graphics) + graphics" where
  "strokeEllipse getPoints x y width height smoothness g =
     (let smoothness' = (case smoothness of None \<Rightarrow> 32 | Some n \<Rightarrow> n);
          el = \<lparr>ell_x = x, ell_y = y, ell_width = width, ell_height = height\<rparr>;
          points = getPoints el smoothness'
      in strokePoints points (Some True) None g)"

definition fillEllipseShape ::
  "(ellipse \<Rightarrow> int \<Rightarrow> point list) \<Rightarrow> ellipse \<Rightarrow> int option \<Rightarrow> graphics \<Rightarrow> (error \<times> graphics) + graphics" where
  "fillEllipseShape getPoints el smoothness g =
     (let smoothness' = (case smoothness of None \<Rightarrow> 32 | Some n \<Rightarrow> n);
          points = getPoints el smoothness'
      in fillPoints points (Some True) None g)"

definition fillEllipse ::
  "(ellipse \<Rightarrow> int \<Rightarrow> point list) \<Rightarrow> real \<Rightarrow> real \<Rightarrow> real \<Rightarrow> real \<Rightarrow> int option \<Rightarrow> graphics \<Rightarrow> (error \<times> graphics) + graphics" where
  "fillEllipse getPoints x y width height smoothness g =
     (let smoothness' = (case smoothness of None \<Rightarrow> 32 | Some n \<Rightarrow> n);
          el = \<lparr>ell_x = x, ell_y = y, ell_width = width, ell_height = height\<rparr>;
          points = getPoints el smoothness'
      in fillPoints points (Some True) None g)"

subsection \<open>The transform stack\<close>

definition save :: "graphics \<Rightarrow> graphics" where
  "save g = push [Cmd SAVE] g"

definition restore :: "graphics \<Rightarrow> graphics" where
  "restore g = push [Cmd RESTORE] g"

definition translate :: "real \<Rightarrow> real \<Rightarrow> graphics \<Rightarrow> graphics" where
  "translate x y g = push [Cmd TRANSLATE, JNum x, JNum y] g"

definition scale_g :: "real \<Rightarrow> real \<Rightarrow> graphics \<Rightarrow> graphics" where
  "scale_g x y g = push [Cmd SCALE, JNum x, JNum y] g"

definition rotate_g :: "real \<Rightarrow> graphics \<Rightarrow> graphics" where
  "rotate_g radians g = push [Cmd ROTATE, JNum radians] g"

subsection \<open>Clearing and destruction\<close>

text \<open>
  \<^verbatim>\<open>this.commandBuffer.length = 0\<close>, then the defaults: the fill style when its colour
  is above -1, then the line style when its colour is above -1.
\<close>

definition clear :: "graphics \<Rightarrow> graphics" where
  "clear g =
     (let g0 = g\<lparr>commandBuffer := []\<rparr>;
          g1 = (if - 1 < defaultFillColor g0
                then fillStyle (defaultFillColor g0) (Some (defaultFillAlpha g0)) g0
                else g0)
      in if - 1 < defaultStrokeColor g1
         then lineStyle (defaultStrokeWidth g1) (defaultStrokeColor g1)
                (Some (defaultStrokeAlpha g1)) g1
         else g1)"

definition preDestroy :: "graphics \<Rightarrow> graphics" where
  "preDestroy g = g\<lparr>commandBuffer := []\<rparr>"

subsection \<open>Capturing to a texture\<close>

text \<open>
  \<^verbatim>\<open>generateTexture\<close> works on objects outside this file: the game configuration, the
  shared \<^verbatim>\<open>Graphics.TargetCamera\<close>, the texture manager, canvases and the renderer. They
  form the world; what the file does not show of it is the component \<open>host_state\<close>.
  A canvas element and its 2d context are one identity.
\<close>

type_synonym canvas = nat

datatype image = HTMLCanvasElement canvas | HTMLImageElement nat

datatype texture_key = KeyString string | KeyCanvas canvas | KeyOther

record texture =
  sourceImage :: image
  glTexture :: "nat option"

record camera =
  cam_x :: real
  cam_y :: real
  cam_width :: real
  cam_height :: real
  scrollX :: real
  scrollY :: real

record 'e world =
  config_width :: real
  config_height :: real
  TargetCamera :: camera
  textures :: "string \<rightharpoonup> texture"
  renderer_gl :: bool
  host_state :: 'e

text \<open>
  Modelled from the spec: \<^verbatim>\<open>Camera.setViewport\<close> (\<^verbatim>\<open>../../cameras/2d/Camera.js\<close>) is not
  among the sources; the spec has the capture size the auxiliary viewport to the given
  width and height.
\<close>

definition setViewport :: "real \<Rightarrow> real \<Rightarrow> real \<Rightarrow> real \<Rightarrow> camera \<Rightarrow> camera" where
  "setViewport x y width height cam =
     cam\<lparr>cam_x := x, cam_y := y, cam_width := width, cam_height := height\<rparr>"

text \<open>
  The collaborators whose code is not among the sources, as parameters: the texture
  manager's \<^verbatim>\<open>createCanvas\<close>, the mixed-in \<^verbatim>\<open>renderCanvas\<close> (\<^verbatim>\<open>./GraphicsRender\<close>), which
  receives the object to replay its buffer, and the renderer's \<^verbatim>\<open>canvasToTexture\<close>. Each
  may raise, and each may change the world. The spec gives the renderer the buffer as
  a read-only sequence, so \<open>renderCanvas\<close> takes the object and returns no new one.
\<close>

record 'e host =
  createCanvas :: "string \<Rightarrow> real \<Rightarrow> real \<Rightarrow> 'e world \<Rightarrow> error + (texture \<times> 'e world)"
  renderCanvas :: "graphics \<Rightarrow> camera \<Rightarrow> canvas \<Rightarrow> 'e world \<Rightarrow> error + 'e world"
  canvasToTexture :: "canvas \<Rightarrow> nat option \<Rightarrow> 'e world \<Rightarrow> error + (nat option \<times> 'e world)"

text \<open>
  The branches on \<^verbatim>\<open>key\<close>: the texture the call will write to (under its key), if any,
  and the context it will draw on, if any. Calling \<^verbatim>\<open>getContext\<close> on a source image that
  is no canvas throws.
\<close>

definition resolve_target ::
  "'e host \<Rightarrow> texture_key \<Rightarrow> real \<Rightarrow> real \<Rightarrow> 'e world
     \<Rightarrow> (error \<times> 'e world) + (((string \<times> texture) option \<times> canvas option) \<times> 'e world)" where
  "resolve_target h key width height w =
     (case key of
        KeyString k \<Rightarrow>
          (case textures w k of
             Some t \<Rightarrow>
               Inr ((Some (k, t),
                     (case sourceImage t of
                        HTMLCanvasElement c \<Rightarrow> Some c
                      | HTMLImageElement i \<Rightarrow> None)), w)
           | None \<Rightarrow>
               (case createCanvas h k width height w of
                  Inl e \<Rightarrow> Inl (e, w)
                | Inr (t, w') \<Rightarrow>
                    (case sourceImage t of
                       HTMLCanvasElement c \<Rightarrow> Inr ((Some (k, t), Some c), w')
                     | HTMLImageElement i \<Rightarrow> Inl (TypeError, w'))))
      | KeyCanvas c \<Rightarrow> Inr ((None, Some c), w)
      | KeyOther \<Rightarrow> Inr ((None, None), w))"

definition generateTexture ::
  "'e host \<Rightarrow> texture_key \<Rightarrow> real option \<Rightarrow> real option \<Rightarrow> graphics \<times> 'e world
     \<Rightarrow> (error \<times> graphics \<times> 'e world) + (graphics \<times> 'e world)" where
  "generateTexture h key width height gw =
     (let g = fst gw;
          w = snd gw;
          width' = (case width of None \<Rightarrow> config_width w | Some v \<Rightarrow> v);
          height' = (case height of None \<Rightarrow> config_height w | Some v \<Rightarrow> v);
          cam = (setViewport 0 0 width' height' (TargetCamera w))
                  \<lparr>scrollX := pos_x g, scrollY := pos_y g\<rparr>;
          w1 = w\<lparr>TargetCamera := cam\<rparr>
      in case resolve_target h key width' height' w1 of
           Inl (e, w2) \<Rightarrow> Inl (e, g, w2)
         | Inr ((tex, ctx), w2) \<Rightarrow>
             (case ctx of
                None \<Rightarrow> Inr (g, w2)
              | Some c \<Rightarrow>
                  (case renderCanvas h g (TargetCamera w2) c w2 of
                     Inl e \<Rightarrow> Inl (e, g, w2)
                   | Inr w3 \<Rightarrow>
                       (case (if renderer_gl w3 then tex else None) of
                          None \<Rightarrow> Inr (g, w3)
                        | Some (k, t) \<Rightarrow>
                            (case canvasToTexture h c (glTexture t) w3 of
                               Inl e \<Rightarrow> Inl (e, g, w3)
                             | Inr (gl, w4) \<Rightarrow>
                                 Inr (g, w4\<lparr>textures :=
                                           (textures w4)(k \<mapsto> t\<lparr>glTexture := gl\<rparr>)\<rparr>))))))"

subsection \<open>The public operations\<close>

text \<open>One constructor per public method of the class, with the arguments of a call.\<close>

datatype call =
    SetDefaultStyles "options option"
  | LineStyle real real "real option"
  | FillStyle real "real option"
  | BeginPath
  | ClosePath
  | FillPath
  | StrokePath
  | FillCircleShape circle
  | StrokeCircleShape circle
  | FillCircle real real real
  | StrokeCircle real real real
  | FillRectShape rectangle
  | StrokeRectShape rectangle
  | FillRect real real real real
  | StrokeRect real real real real
  | FillPointShape point "real option"
  | FillPoint real real "real option"
  | FillTriangleShape triangle
  | StrokeTriangleShape triangle
  | FillTriangle real real real real real real
  | StrokeTriangle real real real real real real
  | StrokeLineShape line
  | LineBetween real real real real
  | LineTo real real
  | MoveTo real real
  | LineFxTo real real real real
  | MoveFxTo real real real real
  | StrokePoints "point list" "bool option" "int option"
  | FillPoints "point list" "bool option" "int option"
  | StrokeEllipseShape ellipse "int option"
  | StrokeEllipse real real real real "int option"
  | FillEllipseShape ellipse "int option"
  | FillEllipse real real real real "int option"
  | Arc real real real real real "bool option"
  | Slice real real real real real "bool option"
  | Save
  | Restore
  | Translate real real
  | Scale real real
  | Rotate real
  | Clear
  | GenerateTexture texture_key "real option" "real option"
  | PreDestroy

text \<open>An operation on the object alone, seen as one on the object and the world.\<close>

definition with_world ::
  "'e world \<Rightarrow> (error \<times> graphics) + graphics \<Rightarrow> (error \<times> graphics \<times> 'e world) + (graphics \<times> 'e world)" where
  "with_world w r = (case r of Inl (e, g) \<Rightarrow> Inl (e, g, w) | Inr g \<Rightarrow> Inr (g, w))"

definition exec ::
  "(ellipse \<Rightarrow> int \<Rightarrow> point list) \<Rightarrow> 'e host \<Rightarrow> call \<Rightarrow> graphics \<times> 'e world
     \<Rightarrow> (error \<times> graphics \<times> 'e world) + (graphics \<times> 'e world)" where
  "exec gp h c gw =
     (let g = fst gw; w = snd gw
      in case c of
             SetDefaultStyles opts \<Rightarrow> Inr (setDefaultStyles opts g, w)
           | LineStyle lw c a \<Rightarrow> Inr (lineStyle lw c a g, w)
           | FillStyle c a \<Rightarrow> Inr (fillStyle c a g, w)
           | BeginPath \<Rightarrow> Inr (beginPath g, w)
           | ClosePath \<Rightarrow> Inr (closePath g, w)
           | FillPath \<Rightarrow> Inr (fillPath g, w)
           | StrokePath \<Rightarrow> Inr (strokePath g, w)
           | FillCircleShape c \<Rightarrow> Inr (fillCircleShape c g, w)
           | StrokeCircleShape c \<Rightarrow> Inr (strokeCircleShape c g, w)
           | FillCircle x y r \<Rightarrow> Inr (fillCircle x y r g, w)
           | StrokeCircle x y r \<Rightarrow> Inr (strokeCircle x y r g, w)
           | FillRectShape r \<Rightarrow> Inr (fillRectShape r g, w)
           | StrokeRectShape r \<Rightarrow> Inr (strokeRectShape r g, w)
           | FillRect x y wd ht \<Rightarrow> Inr (fillRect x y wd ht g, w)
           | StrokeRect x y wd ht \<Rightarrow> Inr (strokeRect x y wd ht g, w)
           | FillPointShape p sz \<Rightarrow> Inr (fillPointShape p sz g, w)
           | FillPoint x y sz \<Rightarrow> Inr (fillPoint x y sz g, w)
           | FillTriangleShape t \<Rightarrow> Inr (fillTriangleShape t g, w)
           | StrokeTriangleShape t \<Rightarrow> Inr (strokeTriangleShape t g, w)
           | FillTriangle x0 y0 x1 y1 x2 y2 \<Rightarrow> Inr (fillTriangle x0 y0 x1 y1 x2 y2 g, w)
           | StrokeTriangle x0 y0 x1 y1 x2 y2 \<Rightarrow> Inr (strokeTriangle x0 y0 x1 y1 x2 y2 g, w)
           | StrokeLineShape l \<Rightarrow> Inr (strokeLineShape l g, w)
           | LineBetween x1 y1 x2 y2 \<Rightarrow> Inr (lineBetween x1 y1 x2 y2 g, w)
           | LineTo x y \<Rightarrow> Inr (lineTo x y g, w)
           | MoveTo x y \<Rightarrow> Inr (moveTo x y g, w)
           | LineFxTo x y wd rgb \<Rightarrow> Inr (lineFxTo x y wd rgb g, w)
           | MoveFxTo x y wd rgb \<Rightarrow> Inr (moveFxTo x y wd rgb g, w)
           | StrokePoints ps ac ei \<Rightarrow> with_world w (strokePoints ps ac ei g)
           | FillPoints ps ac ei \<Rightarrow> with_world w (fillPoints ps ac ei g)
           | StrokeEllipseShape el sm \<Rightarrow> with_world w (strokeEllipseShape gp el sm g)
           | StrokeEllipse x y wd ht sm \<Rightarrow> with_world w (strokeEllipse gp x y wd ht sm g)
           | FillEllipseShape el sm \<Rightarrow> with_world w (fillEllipseShape gp el sm g)
           | FillEllipse x y wd ht sm \<Rightarrow> with_world w (fillEllipse gp x y wd ht sm g)
           | Arc x y r sa ea ac \<Rightarrow> Inr (arc x y r sa ea ac g, w)
           | Slice x y r sa ea ac \<Rightarrow> Inr (slice x y r sa ea ac g, w)
           | Save \<Rightarrow> Inr (save g, w)
           | Restore \<Rightarrow> Inr (restore g, w)
           | Translate x y \<Rightarrow> Inr (translate x y g, w)
           | Scale x y \<Rightarrow> Inr (scale_g x y g, w)
           | Rotate r \<Rightarrow> Inr (rotate_g r g, w)
           | Clear \<Rightarrow> Inr (clear g, w)
           | GenerateTexture key wd ht \<Rightarrow> generateTexture h key wd ht (g, w)
           | PreDestroy \<Rightarrow> Inr (preDestroy g, w))"

text \<open>A script: calls in sequence, stopped by the first one that throws.\<close>

fun run ::
  "(ellipse \<Rightarrow> int \<Rightarrow> point list) \<Rightarrow> 'e host \<Rightarrow> call list \<Rightarrow> graphics \<times> 'e world
     \<Rightarrow> (error \<times> graphics \<times> 'e world) + (graphics \<times> 'e world)" where
  "run gp h [] gw = Inr gw"
| "run gp h (c # cs) gw =
     (case exec gp h c gw of
        Inl e \<Rightarrow> Inl e
      | Inr gw' \<Rightarrow> run gp h cs gw')"

text \<open>The object an outcome leaves, returned or at the throw.\<close>

definition graphics_after :: "(error \<times> graphics) + graphics \<Rightarrow> graphics" where
  "graphics_after r = (case r of Inl (e, g) \<Rightarrow> g | Inr g \<Rightarrow> g)"

definition object_after :: "(error \<times> graphics \<times> 'e world) + (graphics \<times> 'e world) \<Rightarrow> graphics" where
  "object_after r = (case r of Inl (e, g, w) \<Rightarrow> g | Inr (g, w) \<Rightarrow> g)"



text \<open>The calls that never reach \<^verbatim>\<open>lineStyle\<close>, whatever the state.\<close>

definition lineStyle_free :: "call \<Rightarrow> bool" where
  "lineStyle_free c =
     (case c of
        LineStyle lw col a \<Rightarrow> False
      | SetDefaultStyles opts \<Rightarrow> False
      | Clear \<Rightarrow> False
      | _ \<Rightarrow> True)"

text \<open>The calls other than \<^verbatim>\<open>clear\<close> and destruction.\<close>

definition appending :: "call \<Rightarrow> bool" where
  "appending c = (case c of Clear \<Rightarrow> False | PreDestroy \<Rightarrow> False | _ \<Rightarrow> True)"

subsection \<open>The documented expansion of a point path\<close>

text \<open>
  The instruction sequence the specification gives for a point path, written from its
  words and compared with the code below: begin the path, move to the first point, a
  line to each further point, one more line back to the first point when the path is
  closed, then the final stroke or fill instruction.
\<close>

definition documented_point_path :: "command \<Rightarrow> point \<Rightarrow> point list \<Rightarrow> bool \<Rightarrow> cell list" where
  "documented_point_path final p0 further autoClose =
     [Cmd BEGIN_PATH, Cmd MOVE_TO, JNum (pt_x p0), JNum (pt_y p0)]
     @ concat (map (\<lambda>p. [Cmd LINE_TO, JNum (pt_x p), JNum (pt_y p)]) further)
     @ (if autoClose then [Cmd LINE_TO, JNum (pt_x p0), JNum (pt_y p0)] else [])
     @ [Cmd final]"

subsection \<open>Concrete inputs\<close>

text \<open>An object whose only default is a blue fill, with one instruction in its buffer.\<close>

definition g_blue :: graphics where
  "g_blue =
     \<lparr>pos_x = 0, pos_y = 0, commandBuffer = [Cmd SAVE], defaultFillColor = 255,
      defaultFillAlpha = 1, defaultStrokeWidth = 1, defaultStrokeColor = - 1,
      defaultStrokeAlpha = 1, u_lineWidth = 1\<rparr>"

text \<open>Three corners of a triangle.\<close>

definition corners :: "point list" where
  "corners = [\<lparr>pt_x = 0, pt_y = 0\<rparr>, \<lparr>pt_x = 4, pt_y = 0\<rparr>, \<lparr>pt_x = 4, pt_y = 3\<rparr>]"

text \<open>
  A host that cannot allocate: \<^verbatim>\<open>createCanvas\<close> raises, the renderer draws nothing, and
  the upload keeps the texture it is given. A world with no texture, on the canvas
  backend, and an ellipse sampler that yields no point.
\<close>

definition host0 :: "unit host" where
  "host0 =
     \<lparr>createCanvas = (\<lambda>k wd ht w. Inl (HostError ''createCanvas'')),
      renderCanvas = (\<lambda>g cam c w. Inr w),
      canvasToTexture = (\<lambda>c gl w. Inr (gl, w))\<rparr>"

definition world0 :: "unit world" where
  "world0 =
     \<lparr>config_width = 800, config_height = 600,
      TargetCamera = \<lparr>cam_x = 0, cam_y = 0, cam_width = 0, cam_height = 0,
                       scrollX = 0, scrollY = 0\<rparr>,
      textures = Map.empty, renderer_gl = False, host_state = ()\<rparr>"

definition getPoints0 :: "ellipse \<Rightarrow> int \<Rightarrow> point list" where
  "getPoints0 el n = []"

text \<open>Options that give both styles: a red line of width 4 and a half-transparent blue fill.\<close>

definition both_styles :: options where
  "both_styles =
     \<lparr>opt_x = None, opt_y = None,
      opt_lineStyle = Some \<lparr>ls_width = Some 4, ls_color = Some 16711680, ls_alpha = None\<rparr>,
      opt_fillStyle = Some \<lparr>fs_color = Some 255, fs_alpha = Some (1 / 2)\<rparr>\<rparr>"

section \<open>Properties\<close>

subsection \<open>Appending\<close>

lemma commandBuffer_push: "commandBuffer (push cs g) = commandBuffer g @ cs"
  by (simp add: push_def)

lemma push_push: "push bs (push as g) = push (as @ bs) g"
  by (simp add: push_def)

lemma push_Nil: "push [] g = g"
  by (simp add: push_def)

subsection \<open>Circles\<close>

lemma fillCircle_push:
  "fillCircle x y radius g =
     push [Cmd BEGIN_PATH, Cmd ARC, JNum x, JNum y, JNum radius, JNum 0, JNum PI2, JUndefined,
           Cmd FILL_PATH] g"
  by (simp add: fillCircle_def beginPath_def arc_def fillPath_def push_push)

lemma strokeCircle_push:
  "strokeCircle x y radius g =
     push [Cmd BEGIN_PATH, Cmd ARC, JNum x, JNum y, JNum radius, JNum 0, JNum PI2, JUndefined,
           Cmd STROKE_PATH] g"
  by (simp add: strokeCircle_def beginPath_def arc_def strokePath_def push_push)

text \<open>
  C1. \<^verbatim>\<open>fillCircle(x, y, radius)\<close> is to append BEGIN_PATH, ARC(x, y, radius, 0, 2 pi,
  false), FILL_PATH, and \<^verbatim>\<open>strokeCircle\<close> the same with STROKE_PATH. The opcodes and the
  first five operands are as stated, but both methods call \<^verbatim>\<open>arc\<close> with five arguments,
  and \<^verbatim>\<open>arc\<close>, unlike \<^verbatim>\<open>slice\<close>, does not default its sixth: on a new object
  \<^verbatim>\<open>fillCircle(0, 0, 1)\<close> leaves \<^verbatim>\<open>undefined\<close> in the anticlockwise operand, which is not
  the boolean false.
\<close>

theorem fillCircle_stores_undefined:
  "commandBuffer (fillCircle 0 0 1 (Graphics None)) =
     [Cmd BEGIN_PATH, Cmd ARC, JNum 0, JNum 0, JNum 1, JNum 0, JNum PI2, JUndefined, Cmd FILL_PATH]
   \<and> commandBuffer (strokeCircle 0 0 1 (Graphics None)) =
     [Cmd BEGIN_PATH, Cmd ARC, JNum 0, JNum 0, JNum 1, JNum 0, JNum PI2, JUndefined, Cmd STROKE_PATH]
   \<and> JUndefined \<noteq> JBool False"
  by (simp add: fillCircle_push strokeCircle_push commandBuffer_push Graphics_def
      setDefaultStyles_def GetValue_def)

subsection \<open>Clearing\<close>

lemma minus_one_less_of_int: "(- 1 < (of_int k :: real)) = (0 \<le> k)"
proof -
  have "(- 1 < (of_int k :: real)) = ((of_int (- 1) :: real) < of_int k)" by simp
  also have "\<dots> = (- 1 < k)" by (simp only: of_int_less_iff)
  also have "\<dots> = (0 \<le> k)" by arith
  finally show ?thesis .
qed

text \<open>
  C2. After \<^verbatim>\<open>clear()\<close> the buffer holds, whatever it held before, the FILL_STYLE
  instruction of the default fill exactly when the default fill colour is set, followed
  by the LINE_STYLE instruction of the default stroke exactly when the default stroke
  colour is set: at most two instructions, fill before stroke, and none exactly when
  neither default is set. The code takes a colour as set when it is above -1, which for
  a whole-numbered colour is to say it is not negative.
\<close>

theorem clear_buffer:
  "commandBuffer (clear g) =
     (if - 1 < defaultFillColor g
      then [Cmd FILL_STYLE, JNum (defaultFillColor g), JNum (defaultFillAlpha g)] else [])
     @ (if - 1 < defaultStrokeColor g
        then [Cmd LINE_STYLE, JNum (defaultStrokeWidth g), JNum (defaultStrokeColor g),
              JNum (defaultStrokeAlpha g)] else [])
   \<and> instruction_count (commandBuffer (clear g)) \<le> 2
   \<and> (commandBuffer (clear g) = []
        \<longleftrightarrow> \<not> - 1 < defaultFillColor g \<and> \<not> - 1 < defaultStrokeColor g)
   \<and> (\<forall>k::int. defaultFillColor g = of_int k \<longrightarrow> (- 1 < defaultFillColor g \<longleftrightarrow> 0 \<le> k))
   \<and> (\<forall>k::int. defaultStrokeColor g = of_int k \<longrightarrow> (- 1 < defaultStrokeColor g \<longleftrightarrow> 0 \<le> k))"
  by (simp add: clear_def Let_def fillStyle_def lineStyle_def push_def instruction_count_def
      minus_one_less_of_int)

theorem clear_buffer_witness:
  "commandBuffer (clear g_blue) = [Cmd FILL_STYLE, JNum 255, JNum 1]
   \<and> defaultFillColor g_blue = of_int 255"
  using clear_buffer [of g_blue] by (simp add: g_blue_def)

subsection \<open>Points\<close>

text \<open>
  C6. \<^verbatim>\<open>fillPoint(x, y, size)\<close> appends FILL_RECT(x, y, 1, 1), the coordinates untouched,
  when the size is left out, 0 or 0.5 (or any number below 1); FILL_RECT(x - 2, y - 2, 4,
  4) when the size is 4; and FILL_RECT(x - size/2, y - size/2, size, size) for every size
  of at least 1. Nothing else of the object changes.
\<close>

theorem fillPoint_rect:
  "fillPoint x y None g = push [Cmd FILL_RECT, JNum x, JNum y, JNum 1, JNum 1] g
   \<and> fillPoint x y (Some 0) g = push [Cmd FILL_RECT, JNum x, JNum y, JNum 1, JNum 1] g
   \<and> fillPoint x y (Some 0.5) g = push [Cmd FILL_RECT, JNum x, JNum y, JNum 1, JNum 1] g
   \<and> fillPoint x y (Some 4) g = push [Cmd FILL_RECT, JNum (x - 2), JNum (y - 2), JNum 4, JNum 4] g
   \<and> (1 \<le> s \<longrightarrow>
        fillPoint x y (Some s) g
          = push [Cmd FILL_RECT, JNum (x - s / 2), JNum (y - s / 2), JNum s, JNum s] g)
   \<and> (s < 1 \<longrightarrow> fillPoint x y (Some s) g = push [Cmd FILL_RECT, JNum x, JNum y, JNum 1, JNum 1] g)"
  by (simp add: fillPoint_def)

theorem fillPoint_rect_witness:
  "(1::real) \<le> 3
   \<and> commandBuffer (fillPoint 10 20 (Some 3) g_blue)
       = [Cmd SAVE, Cmd FILL_RECT, JNum (17 / 2), JNum (37 / 2), JNum 3, JNum 3]
   \<and> commandBuffer (fillPoint 10 20 (Some (1 / 4)) g_blue)
       = [Cmd SAVE, Cmd FILL_RECT, JNum 10, JNum 20, JNum 1, JNum 1]"
  using fillPoint_rect [of 10 20 g_blue 3] fillPoint_rect [of 10 20 g_blue "1 / 4"]
  by (simp add: commandBuffer_push g_blue_def)

subsection \<open>Pie slices\<close>

text \<open>
  C8. \<^verbatim>\<open>slice(x, y, radius, startAngle, endAngle, anticlockwise)\<close> appends exactly
  BEGIN_PATH, MOVE_TO(x, y), ARC(x, y, radius, startAngle, endAngle, anticlockwise),
  CLOSE_PATH, the direction being false when the argument is left out, and changes
  nothing else: the buffer grows by these twelve cells, four instructions, and no
  FILL_PATH and no STROKE_PATH is among them.
\<close>

theorem slice_path:
  "slice x y radius startAngle endAngle anticlockwise g =
     g\<lparr>commandBuffer := commandBuffer g @
          [Cmd BEGIN_PATH, Cmd MOVE_TO, JNum x, JNum y,
           Cmd ARC, JNum x, JNum y, JNum radius, JNum startAngle, JNum endAngle,
           JBool (case anticlockwise of None \<Rightarrow> False | Some b \<Rightarrow> b),
           Cmd CLOSE_PATH]\<rparr>
   \<and> commandBuffer (slice x y radius startAngle endAngle anticlockwise g) =
       commandBuffer g @
          [Cmd BEGIN_PATH, Cmd MOVE_TO, JNum x, JNum y,
           Cmd ARC, JNum x, JNum y, JNum radius, JNum startAngle, JNum endAngle,
           JBool (case anticlockwise of None \<Rightarrow> False | Some b \<Rightarrow> b),
           Cmd CLOSE_PATH]
   \<and> commandBuffer (slice x y radius startAngle endAngle None g) =
       commandBuffer g @
          [Cmd BEGIN_PATH, Cmd MOVE_TO, JNum x, JNum y,
           Cmd ARC, JNum x, JNum y, JNum radius, JNum startAngle, JNum endAngle, JBool False,
           Cmd CLOSE_PATH]
   \<and> length (commandBuffer (slice x y radius startAngle endAngle anticlockwise g))
       = length (commandBuffer g) + 12
   \<and> instruction_count (commandBuffer (slice x y radius startAngle endAngle anticlockwise g))
       = instruction_count (commandBuffer g) + 4
   \<and> Cmd FILL_PATH \<notin> set (drop (length (commandBuffer g))
         (commandBuffer (slice x y radius startAngle endAngle anticlockwise g)))
   \<and> Cmd STROKE_PATH \<notin> set (drop (length (commandBuffer g))
         (commandBuffer (slice x y radius startAngle endAngle anticlockwise g)))"
  by (simp add: slice_def push_def instruction_count_def)

theorem slice_path_witness:
  "commandBuffer (slice 100 50 30 0 (3 / 2) None g_blue) =
     [Cmd SAVE, Cmd BEGIN_PATH, Cmd MOVE_TO, JNum 100, JNum 50,
      Cmd ARC, JNum 100, JNum 50, JNum 30, JNum 0, JNum (3 / 2), JBool False, Cmd CLOSE_PATH]
   \<and> commandBuffer (slice 100 50 30 0 (3 / 2) (Some True) (Graphics None)) =
     [Cmd BEGIN_PATH, Cmd MOVE_TO, JNum 100, JNum 50,
      Cmd ARC, JNum 100, JNum 50, JNum 30, JNum 0, JNum (3 / 2), JBool True, Cmd CLOSE_PATH]
   \<and> defaultFillColor (slice 100 50 30 0 (3 / 2) None g_blue) = 255
   \<and> u_lineWidth (slice 100 50 30 0 (3 / 2) None g_blue) = 1"
  using slice_path [of 100 50 30 0 "3 / 2" None g_blue]
    slice_path [of 100 50 30 0 "3 / 2" "Some True" "Graphics None"]
  by (simp add: g_blue_def Graphics_def setDefaultStyles_def GetValue_def)

subsection \<open>Point paths\<close>

lemma js_index_in: "0 \<le> i \<Longrightarrow> i < int (length xs) \<Longrightarrow> js_index xs i = Some (xs ! nat i)"
  by (simp add: js_index_def)

text \<open>Within the array the loop reads the points from \<open>i\<close> up to \<open>endIndex\<close> and returns.\<close>

lemma lineTo_loop_reads:
  "0 \<le> i \<Longrightarrow> e \<le> int (length ps) \<Longrightarrow>
   lineTo_loop ps i e g =
     Inr (push (concat (map (\<lambda>p. [Cmd LINE_TO, JNum (pt_x p), JNum (pt_y p)])
                  (drop (nat i) (take (nat e) ps)))) g)"
proof (induction ps i e g rule: lineTo_loop.induct)
  case (1 points i endIndex g)
  show ?case
  proof (cases "i < endIndex")
    case False
    then have "drop (nat i) (take (nat endIndex) points) = []" by simp
    with False show ?thesis
      by (simp add: lineTo_loop.simps [of points i endIndex g] push_Nil)
  next
    case True
    with "1.prems" have inb: "i < int (length points)" by simp
    have idx: "js_index points i = Some (points ! nat i)"
      using "1.prems" inb by (simp add: js_index_in)
    have len: "nat i < length (take (nat endIndex) points)"
      using True "1.prems" by simp
    have hd: "drop (nat i) (take (nat endIndex) points)
                = points ! nat i # drop (nat (i + 1)) (take (nat endIndex) points)"
      using Cons_nth_drop_Suc [OF len] True "1.prems"
      by (simp add: nat_add_distrib)
    have rec: "lineTo_loop points (i + 1) endIndex
                 (lineTo (pt_x (points ! nat i)) (pt_y (points ! nat i)) g)
               = Inr (push (concat (map (\<lambda>p. [Cmd LINE_TO, JNum (pt_x p), JNum (pt_y p)])
                        (drop (nat (i + 1)) (take (nat endIndex) points))))
                      (lineTo (pt_x (points ! nat i)) (pt_y (points ! nat i)) g))"
      using "1.IH" [OF True idx] "1.prems" by simp
    show ?thesis
      using True idx rec
      by (simp add: lineTo_loop.simps [of points i endIndex g] hd lineTo_def push_push)
  qed
qed

lemma points_path_reads:
  assumes "e \<le> int (length (p0 # ps))"
  shows "points_path (p0 # ps) ac (Some e) g =
     Inr (push ([Cmd BEGIN_PATH, Cmd MOVE_TO, JNum (pt_x p0), JNum (pt_y p0)]
           @ concat (map (\<lambda>p. [Cmd LINE_TO, JNum (pt_x p), JNum (pt_y p)]) (take (nat e - 1) ps))
           @ (if ac = Some True then [Cmd LINE_TO, JNum (pt_x p0), JNum (pt_y p0)] else [])) g)"
proof -
  have dr: "drop (nat 1) (take (nat e) (p0 # ps)) = take (nat e - 1) ps"
    by (cases "nat e") simp_all
  have loop: "lineTo_loop (p0 # ps) 1 e (moveTo (pt_x p0) (pt_y p0) (beginPath g))
      = Inr (push (concat (map (\<lambda>p. [Cmd LINE_TO, JNum (pt_x p), JNum (pt_y p)])
               (take (nat e - 1) ps))) (moveTo (pt_x p0) (pt_y p0) (beginPath g)))"
    using lineTo_loop_reads [of 1 e "p0 # ps"] assms dr by simp
  have first: "js_index (p0 # ps) 0 = Some p0"
    by (simp add: js_index_def)
  have "points_path (p0 # ps) ac (Some e) g =
      Inr (if (case ac of None \<Rightarrow> False | Some b \<Rightarrow> b)
           then lineTo (pt_x p0) (pt_y p0)
                  (push (concat (map (\<lambda>p. [Cmd LINE_TO, JNum (pt_x p), JNum (pt_y p)])
                     (take (nat e - 1) ps))) (moveTo (pt_x p0) (pt_y p0) (beginPath g)))
           else push (concat (map (\<lambda>p. [Cmd LINE_TO, JNum (pt_x p), JNum (pt_y p)])
                     (take (nat e - 1) ps))) (moveTo (pt_x p0) (pt_y p0) (beginPath g)))"
    by (simp add: points_path_def first loop Let_def)
  then show ?thesis
    by (cases ac) (simp_all add: moveTo_def beginPath_def lineTo_def push_push)
qed

text \<open>
  C5. For a point list that is not empty, \<^verbatim>\<open>strokePoints(points, autoClose, endIndex)\<close>
  returns having appended the documented expansion and nothing else: BEGIN_PATH,
  MOVE_TO of the first point, LINE_TO of each point from index 1 up to but excluding
  \<^verbatim>\<open>endIndex\<close> (an index within the list; left out, it is the length of the list, so
  every further point), one more LINE_TO of the first point exactly when \<^verbatim>\<open>autoClose\<close> is
  true, then STROKE_PATH. \<^verbatim>\<open>fillPoints\<close> is the same with FILL_PATH. For three points and
  \<^verbatim>\<open>autoClose\<close> true this is BEGIN_PATH, MOVE_TO(p0), LINE_TO(p1), LINE_TO(p2),
  LINE_TO(p0), STROKE_PATH.
\<close>

theorem points_path_expansion:
  "(e \<le> int (length (p0 # ps)) \<longrightarrow>
      strokePoints (p0 # ps) ac (Some e) g
        = Inr (push (documented_point_path STROKE_PATH p0 (take (nat e - 1) ps) (ac = Some True)) g)
    \<and> fillPoints (p0 # ps) ac (Some e) g
        = Inr (push (documented_point_path FILL_PATH p0 (take (nat e - 1) ps) (ac = Some True)) g))
   \<and> strokePoints (p0 # ps) ac None g
        = Inr (push (documented_point_path STROKE_PATH p0 ps (ac = Some True)) g)
   \<and> fillPoints (p0 # ps) ac None g
        = Inr (push (documented_point_path FILL_PATH p0 ps (ac = Some True)) g)
   \<and> strokePoints [p0, p1, p2] (Some True) None g
        = Inr (push [Cmd BEGIN_PATH, Cmd MOVE_TO, JNum (pt_x p0), JNum (pt_y p0),
                     Cmd LINE_TO, JNum (pt_x p1), JNum (pt_y p1),
                     Cmd LINE_TO, JNum (pt_x p2), JNum (pt_y p2),
                     Cmd LINE_TO, JNum (pt_x p0), JNum (pt_y p0),
                     Cmd STROKE_PATH] g)"
proof -
  have some: "points_path (p0 # qs) ac (Some e') g =
      Inr (push ([Cmd BEGIN_PATH, Cmd MOVE_TO, JNum (pt_x p0), JNum (pt_y p0)]
           @ concat (map (\<lambda>p. [Cmd LINE_TO, JNum (pt_x p), JNum (pt_y p)]) (take (nat e' - 1) qs))
           @ (if ac = Some True then [Cmd LINE_TO, JNum (pt_x p0), JNum (pt_y p0)] else [])) g)"
    if "e' \<le> int (length (p0 # qs))" for e' qs
    using that by (rule points_path_reads)
  have none_eq: "points_path qs ac None g = points_path qs ac (Some (int (length qs))) g" for qs
    by (simp add: points_path_def)
  have none: "points_path (p0 # qs) ac None g =
      Inr (push ([Cmd BEGIN_PATH, Cmd MOVE_TO, JNum (pt_x p0), JNum (pt_y p0)]
           @ concat (map (\<lambda>p. [Cmd LINE_TO, JNum (pt_x p), JNum (pt_y p)]) qs)
           @ (if ac = Some True then [Cmd LINE_TO, JNum (pt_x p0), JNum (pt_y p0)] else [])) g)" for qs
    using some [of "int (length (p0 # qs))" qs] by (simp add: none_eq)
  have three: "points_path [p0, p1, p2] (Some True) None g =
      Inr (push [Cmd BEGIN_PATH, Cmd MOVE_TO, JNum (pt_x p0), JNum (pt_y p0),
                     Cmd LINE_TO, JNum (pt_x p1), JNum (pt_y p1),
                     Cmd LINE_TO, JNum (pt_x p2), JNum (pt_y p2),
                     Cmd LINE_TO, JNum (pt_x p0), JNum (pt_y p0)] g)"
    using points_path_reads [of 3 p0 "[p1, p2]" "Some True" g]
    by (simp add: points_path_def)
  show ?thesis
    using some [of e ps] none [of ps] three
    by (simp add: strokePoints_def fillPoints_def documented_point_path_def strokePath_def
        fillPath_def push_push)
qed

theorem points_path_expansion_witness:
  "(2::int) \<le> int (length corners)
   \<and> strokePoints corners (Some False) (Some 2) g_blue
       = Inr (g_blue\<lparr>commandBuffer :=
                [Cmd SAVE, Cmd BEGIN_PATH, Cmd MOVE_TO, JNum 0, JNum 0,
                 Cmd LINE_TO, JNum 4, JNum 0, Cmd STROKE_PATH]\<rparr>)"
  using points_path_expansion
    [of 2 "\<lparr>pt_x = 0, pt_y = 0\<rparr>" "[\<lparr>pt_x = 4, pt_y = 0\<rparr>, \<lparr>pt_x = 4, pt_y = 3\<rparr>]" "Some False" g_blue]
  by (simp add: corners_def documented_point_path_def push_def g_blue_def)

subsection \<open>Empty point paths\<close>

text \<open>
  C4, as stated, fails. The claim has \<^verbatim>\<open>strokePoints\<close> and \<^verbatim>\<open>fillPoints\<close> fail fast on an
  empty sequence, with an error of their own, before the first point is read. On a new
  object both read \<^verbatim>\<open>points[0]\<close> outside the array, which yields \<^verbatim>\<open>undefined\<close>, and the
  error is the engine's TypeError for reading \<^verbatim>\<open>.x\<close> of it; by then BEGIN_PATH is in the
  buffer, which was empty at the call.
\<close>

theorem points_empty_not_fail_fast:
  "strokePoints [] None None (Graphics None)
     = Inl (TypeError, (Graphics None)\<lparr>commandBuffer := [Cmd BEGIN_PATH]\<rparr>)
   \<and> fillPoints [] None None (Graphics None)
     = Inl (TypeError, (Graphics None)\<lparr>commandBuffer := [Cmd BEGIN_PATH]\<rparr>)
   \<and> js_index ([] :: point list) 0 = None
   \<and> commandBuffer (Graphics None) = []"
  by (simp add: strokePoints_def fillPoints_def points_path_def js_index_def Let_def
      beginPath_def push_def Graphics_def setDefaultStyles_def GetValue_def)

text \<open>
  C4, amended. The file checks no argument anywhere. On an empty point sequence
  \<^verbatim>\<open>strokePoints\<close> and \<^verbatim>\<open>fillPoints\<close>, whatever their other arguments, append BEGIN_PATH,
  read \<^verbatim>\<open>points[0]\<close>, which is \<^verbatim>\<open>undefined\<close>, and raise the engine's TypeError; nothing
  else is appended and nothing else of the object changes.
\<close>

theorem points_empty_throws:
  "strokePoints [] autoClose endIndex g = Inl (TypeError, push [Cmd BEGIN_PATH] g)
   \<and> fillPoints [] autoClose endIndex g = Inl (TypeError, push [Cmd BEGIN_PATH] g)
   \<and> js_index ([] :: point list) 0 = None"
  by (simp add: strokePoints_def fillPoints_def points_path_def js_index_def Let_def
      beginPath_def)

subsection \<open>What a call leaves of the object\<close>

text \<open>
  Every call that does not reach \<^verbatim>\<open>lineStyle\<close>, \<^verbatim>\<open>clear\<close> or destruction leaves the
  object as it was but for cells pushed to the buffer, whether it returns or throws.
\<close>

lemma ex_push: "\<exists>ys. push zs g = push ys g"
  by blast

lemma ex_push_self: "\<exists>ys. g = push ys g"
  using push_Nil [of g] by metis


lemma lineTo_loop_pushes: "\<exists>ys. graphics_after (lineTo_loop ps i e g) = push ys g"
proof (induction ps i e g rule: lineTo_loop.induct)
  case (1 points i endIndex g)
  show ?case
  proof (cases "i < endIndex")
    case False
    then show ?thesis
      by (simp add: lineTo_loop.simps [of points i endIndex g] graphics_after_def ex_push_self)
  next
    case True
    show ?thesis
    proof (cases "js_index points i")
      case None
      with True show ?thesis
        by (simp add: lineTo_loop.simps [of points i endIndex g] graphics_after_def ex_push_self)
    next
      case (Some p)
      from "1.IH" [OF True Some] obtain ys where
        "graphics_after (lineTo_loop points (i + 1) endIndex (lineTo (pt_x p) (pt_y p) g))
           = push ys (lineTo (pt_x p) (pt_y p) g)"
        by blast
      with True Some show ?thesis
        by (simp add: lineTo_loop.simps [of points i endIndex g] lineTo_def push_push ex_push)
    qed
  qed
qed

lemma points_path_pushes: "\<exists>ys. graphics_after (points_path ps ac ei g) = push ys g"
proof (cases "js_index ps 0")
  case None
  then show ?thesis
    by (simp add: points_path_def Let_def graphics_after_def beginPath_def ex_push)
next
  case (Some p0)
  obtain ys where loop:
    "graphics_after (lineTo_loop ps 1 (case ei of None \<Rightarrow> int (length ps) | Some e \<Rightarrow> e)
        (moveTo (pt_x p0) (pt_y p0) (beginPath g)))
      = push ys (moveTo (pt_x p0) (pt_y p0) (beginPath g))"
    using lineTo_loop_pushes by blast
  show ?thesis
  proof (cases "lineTo_loop ps 1 (case ei of None \<Rightarrow> int (length ps) | Some e \<Rightarrow> e)
        (moveTo (pt_x p0) (pt_y p0) (beginPath g))")
    case (Inl a)
    with loop Some show ?thesis
      by (cases a) (simp add: points_path_def Let_def graphics_after_def moveTo_def
          beginPath_def push_push ex_push)
  next
    case (Inr g3)
    with loop Some show ?thesis
      by (simp add: points_path_def Let_def graphics_after_def moveTo_def
          beginPath_def lineTo_def push_push ex_push)
  qed
qed

lemma strokePoints_pushes: "\<exists>ys. graphics_after (strokePoints ps ac ei g) = push ys g"
proof -
  obtain ys where "graphics_after (points_path ps ac ei g) = push ys g"
    using points_path_pushes by blast
  then show ?thesis
    by (cases "points_path ps ac ei g")
      (auto simp: strokePoints_def graphics_after_def strokePath_def push_push ex_push)
qed

lemma fillPoints_pushes: "\<exists>ys. graphics_after (fillPoints ps ac ei g) = push ys g"
proof -
  obtain ys where "graphics_after (points_path ps ac ei g) = push ys g"
    using points_path_pushes by blast
  then show ?thesis
    by (cases "points_path ps ac ei g")
      (auto simp: fillPoints_def graphics_after_def fillPath_def push_push ex_push)
qed

lemma object_after_with_world: "object_after (with_world w r) = graphics_after r"
  by (auto simp: object_after_def with_world_def graphics_after_def split: sum.splits)

lemma generateTexture_object: "object_after (generateTexture h key wd ht (g, w)) = g"
  by (simp add: generateTexture_def Let_def object_after_def
      split: sum.splits option.splits prod.splits)

lemmas op_defs =
  beginPath_def closePath_def fillPath_def strokePath_def lineTo_def moveTo_def
  lineFxTo_def moveFxTo_def arc_def slice_def fillRect_def fillTriangle_def
  strokeTriangle_def save_def restore_def translate_def scale_g_def rotate_g_def
  fillStyle_def fillCircle_def strokeCircle_def fillCircleShape_def strokeCircleShape_def
  strokeRect_def fillRectShape_def strokeRectShape_def fillPoint_def fillPointShape_def
  fillTriangleShape_def strokeTriangleShape_def lineBetween_def strokeLineShape_def
  strokeEllipseShape_def strokeEllipse_def fillEllipseShape_def fillEllipse_def

lemma object_after_Inr: "object_after (Inr (g, w)) = g"
  by (simp add: object_after_def)

lemma exec_pushes:
  assumes "lineStyle_free c" and "appending c"
  shows "\<exists>ys. object_after (exec gp h c (g, w)) = push ys g"
  using assms
  by (cases c)
    (simp_all add: exec_def lineStyle_free_def appending_def object_after_with_world
      generateTexture_object strokePoints_pushes fillPoints_pushes ex_push ex_push_self
      op_defs Let_def push_push object_after_Inr split: option.split)


lemma not_lineStyle_free_cases:
  "\<not> lineStyle_free c \<Longrightarrow> appending c \<Longrightarrow>
     (\<exists>lw col a. c = LineStyle lw col a) \<or> (\<exists>opts. c = SetDefaultStyles opts)"
  by (cases c) (simp_all add: lineStyle_free_def appending_def)


lemma lineStyle_buffer:
  "commandBuffer (lineStyle lw c a g) =
     commandBuffer g @ [Cmd LINE_STYLE, JNum lw, JNum c, JNum (case a of None \<Rightarrow> 1 | Some v \<Rightarrow> v)]"
  by (simp add: lineStyle_def push_def)

lemma setDefaultStyles_prefix:
  "prefix (commandBuffer g) (commandBuffer (setDefaultStyles opts g))"
  by (simp add: setDefaultStyles_def Let_def lineStyle_def fillStyle_def push_def GetValue_def
      split: option.splits)

lemma exec_prefix:
  assumes "appending c"
  shows "prefix (commandBuffer g) (commandBuffer (object_after (exec gp h c (g, w))))"
proof (cases "lineStyle_free c")
  case True
  with assms obtain ys where "object_after (exec gp h c (g, w)) = push ys g"
    using exec_pushes by blast
  then show ?thesis by (simp add: commandBuffer_push)
next
  case False
  with assms consider (ls) lw col a where "c = LineStyle lw col a"
    | (sd) opts where "c = SetDefaultStyles opts"
    using not_lineStyle_free_cases by blast
  then show ?thesis
  proof cases
    case ls
    then show ?thesis by (simp add: exec_def object_after_def lineStyle_buffer)
  next
    case sd
    then show ?thesis by (simp add: exec_def object_after_def setDefaultStyles_prefix)
  qed
qed

lemma run_prefix:
  "list_all appending cs \<Longrightarrow>
     prefix (commandBuffer g) (commandBuffer (object_after (run gp h cs (g, w))))"
proof (induction cs arbitrary: g w)
  case Nil
  then show ?case by (simp add: object_after_def)
next
  case (Cons c cs)
  then have app: "appending c" and rest: "list_all appending cs"
    by simp_all
  have step: "prefix (commandBuffer g) (commandBuffer (object_after (exec gp h c (g, w))))"
    using app by (rule exec_prefix)
  show ?case
  proof (cases "exec gp h c (g, w)")
    case (Inl a)
    with step show ?thesis by simp
  next
    case (Inr gw')
    obtain g' w' where gw': "gw' = (g', w')" by (cases gw')
    with Inr step have "prefix (commandBuffer g) (commandBuffer g')"
      by (simp add: object_after_def)
    moreover have "prefix (commandBuffer g') (commandBuffer (object_after (run gp h cs (g', w'))))"
      using rest by (rule Cons.IH)
    ultimately show ?thesis
      using Inr gw' by (auto intro: prefix_order.trans)
  qed
qed







subsection \<open>Stroked rectangles\<close>



subsection \<open>Only appending\<close>

text \<open>
  C7. Every public operation other than \<^verbatim>\<open>clear\<close> and destruction only appends: the
  buffer before the call is a prefix of the buffer after it, whether the call returns or
  throws, and so for any script of such calls. \<^verbatim>\<open>preDestroy\<close> leaves an empty buffer,
  and what \<^verbatim>\<open>clear\<close> leaves does not depend on what the buffer held: it empties the
  buffer wholesale before it re-applies the defaults.
\<close>

theorem append_only:
  "(appending c \<longrightarrow>
      prefix (commandBuffer g) (commandBuffer (object_after (exec gp h c (g, w)))))
   \<and> (list_all appending cs \<longrightarrow>
      prefix (commandBuffer g) (commandBuffer (object_after (run gp h cs (g, w)))))
   \<and> commandBuffer (preDestroy g) = []
   \<and> commandBuffer (clear g) = commandBuffer (clear (g\<lparr>commandBuffer := []\<rparr>))"
proof -
  have "commandBuffer (clear g) = commandBuffer (clear (g\<lparr>commandBuffer := []\<rparr>))"
    by (simp add: clear_def Let_def)
  then show ?thesis
    by (simp add: exec_prefix run_prefix preDestroy_def)
qed

theorem append_only_witness:
  "appending (StrokePoints [] None None)
   \<and> list_all appending [LineStyle 2 255 None, StrokePoints [] None None, Save]
   \<and> commandBuffer (object_after (exec getPoints0 host0 (StrokePoints [] None None) (g_blue, world0)))
       = [Cmd SAVE, Cmd BEGIN_PATH]
   \<and> prefix [Cmd SAVE] [Cmd SAVE, Cmd BEGIN_PATH]
   \<and> commandBuffer (object_after (run getPoints0 host0
         [LineStyle 2 255 None, StrokePoints [] None None, Save] (g_blue, world0)))
       = [Cmd SAVE, Cmd LINE_STYLE, JNum 2, JNum 255, JNum 1, Cmd BEGIN_PATH]"
proof -
  have one: "exec getPoints0 host0 (StrokePoints [] None None) (g, w)
      = Inl (TypeError, push [Cmd BEGIN_PATH] g, w)" for g and w :: "unit world"
    by (simp add: exec_def with_world_def strokePoints_def points_path_def js_index_def Let_def
        beginPath_def)
  have two: "exec getPoints0 host0 (LineStyle 2 255 None) (g, w)
      = Inr (lineStyle 2 255 None g, w)" for g and w :: "unit world"
    by (simp add: exec_def)
  show ?thesis
    using append_only [of "StrokePoints [] None None" g_blue getPoints0 host0 world0
        "[LineStyle 2 255 None, StrokePoints [] None None, Save]"]
    by (simp add: appending_def one two object_after_def commandBuffer_push lineStyle_buffer
        g_blue_def)
qed

subsection \<open>Capture\<close>

text \<open>
  C9. \<^verbatim>\<open>generateTexture\<close> leaves the object as it found it, the command buffer and the
  style defaults included, for every key, size, world and host, whether the capture
  returns or aborts on an error raised by the texture manager or the renderer. The
  renderer is not among the sources; it is given the object to read.
\<close>

theorem generateTexture_keeps_object:
  "object_after (generateTexture h key width height (g, w)) = g
   \<and> commandBuffer (object_after (generateTexture h key width height (g, w))) = commandBuffer g"
  by (simp add: generateTexture_object)

theorem generateTexture_keeps_object_witness:
  "generateTexture host0 (KeyString ''snapshot'') None None (g_blue, world0)
     = Inl (HostError ''createCanvas'', g_blue,
            world0\<lparr>TargetCamera := \<lparr>cam_x = 0, cam_y = 0, cam_width = 800, cam_height = 600,
                                     scrollX = 0, scrollY = 0\<rparr>\<rparr>)
   \<and> object_after (generateTexture host0 (KeyString ''snapshot'') None None (g_blue, world0)) = g_blue
   \<and> generateTexture host0 (KeyCanvas 7) (Some 64) (Some 32) (g_blue, world0)
     = Inr (g_blue,
            world0\<lparr>TargetCamera := \<lparr>cam_x = 0, cam_y = 0, cam_width = 64, cam_height = 32,
                                     scrollX = 0, scrollY = 0\<rparr>\<rparr>)"
  using generateTexture_keeps_object [of host0 "KeyString ''snapshot''" None None g_blue world0]
  by (simp add: generateTexture_def resolve_target_def host0_def world0_def setViewport_def
      g_blue_def Let_def)

subsection \<open>The order of the styles at construction and after a clear\<close>

text \<open>
  C10. When the options hold both a line style and a fill style, \<^verbatim>\<open>setDefaultStyles\<close>
  appends the LINE_STYLE instruction and then the FILL_STYLE instruction, so the buffer
  of a newly constructed object is these two; when both default colours are set (above
  -1), \<^verbatim>\<open>clear\<close> on that object leaves the same two instructions in the opposite order,
  FILL_STYLE first.
\<close>

theorem construction_and_clear_order:
  "opt_lineStyle opts = Some ls \<and> opt_fillStyle opts = Some fs \<longrightarrow>
     commandBuffer (setDefaultStyles (Some opts) g)
       = commandBuffer g
         @ [Cmd LINE_STYLE,
            JNum (case ls_width ls of None \<Rightarrow> 1 | Some v \<Rightarrow> v),
            JNum (case ls_color ls of None \<Rightarrow> 16777215 | Some v \<Rightarrow> v),
            JNum (case ls_alpha ls of None \<Rightarrow> 1 | Some v \<Rightarrow> v)]
         @ [Cmd FILL_STYLE,
            JNum (case fs_color fs of None \<Rightarrow> 16777215 | Some v \<Rightarrow> v),
            JNum (case fs_alpha fs of None \<Rightarrow> 1 | Some v \<Rightarrow> v)]
   \<and> commandBuffer (Graphics (Some opts))
       = [Cmd LINE_STYLE,
            JNum (case ls_width ls of None \<Rightarrow> 1 | Some v \<Rightarrow> v),
            JNum (case ls_color ls of None \<Rightarrow> 16777215 | Some v \<Rightarrow> v),
            JNum (case ls_alpha ls of None \<Rightarrow> 1 | Some v \<Rightarrow> v)]
         @ [Cmd FILL_STYLE,
            JNum (case fs_color fs of None \<Rightarrow> 16777215 | Some v \<Rightarrow> v),
            JNum (case fs_alpha fs of None \<Rightarrow> 1 | Some v \<Rightarrow> v)]
   \<and> (- 1 < defaultStrokeColor (Graphics (Some opts))
        \<and> - 1 < defaultFillColor (Graphics (Some opts)) \<longrightarrow>
      commandBuffer (clear (Graphics (Some opts)))
       = [Cmd FILL_STYLE,
            JNum (case fs_color fs of None \<Rightarrow> 16777215 | Some v \<Rightarrow> v),
            JNum (case fs_alpha fs of None \<Rightarrow> 1 | Some v \<Rightarrow> v)]
         @ [Cmd LINE_STYLE,
            JNum (case ls_width ls of None \<Rightarrow> 1 | Some v \<Rightarrow> v),
            JNum (case ls_color ls of None \<Rightarrow> 16777215 | Some v \<Rightarrow> v),
            JNum (case ls_alpha ls of None \<Rightarrow> 1 | Some v \<Rightarrow> v)])"
  by (simp add: Graphics_def setDefaultStyles_def GetValue_def key_lineStyle_def key_fillStyle_def
      Let_def lineStyle_def fillStyle_def push_def clear_def)

theorem construction_and_clear_order_witness:
  "opt_lineStyle both_styles = Some \<lparr>ls_width = Some 4, ls_color = Some 16711680, ls_alpha = None\<rparr>
   \<and> opt_fillStyle both_styles = Some \<lparr>fs_color = Some 255, fs_alpha = Some (1 / 2)\<rparr>
   \<and> commandBuffer (Graphics (Some both_styles))
       = [Cmd LINE_STYLE, JNum 4, JNum 16711680, JNum 1, Cmd FILL_STYLE, JNum 255, JNum (1 / 2)]
   \<and> commandBuffer (clear (Graphics (Some both_styles)))
       = [Cmd FILL_STYLE, JNum 255, JNum (1 / 2), Cmd LINE_STYLE, JNum 4, JNum 16711680, JNum 1]"
proof -
  have ls: "opt_lineStyle both_styles
      = Some \<lparr>ls_width = Some 4, ls_color = Some 16711680, ls_alpha = None\<rparr>"
    and fs: "opt_fillStyle both_styles = Some \<lparr>fs_color = Some 255, fs_alpha = Some (1 / 2)\<rparr>"
    by (simp_all add: both_styles_def)
  have colours: "defaultStrokeColor (Graphics (Some both_styles)) = 16711680"
    "defaultFillColor (Graphics (Some both_styles)) = 255"
    by (simp_all add: Graphics_def setDefaultStyles_def GetValue_def key_lineStyle_def
        key_fillStyle_def Let_def lineStyle_def fillStyle_def push_def both_styles_def)
  show ?thesis
    using construction_and_clear_order [of both_styles
        "\<lparr>ls_width = Some 4, ls_color = Some 16711680, ls_alpha = None\<rparr>"
        "\<lparr>fs_color = Some 255, fs_alpha = Some (1 / 2)\<rparr>"] ls fs colours
    by simp
qed

end
